theory Spec2Isabelle
  imports Main
begin

section \<open>Countdown engine: class TimerThread\<close>

text \<open>
  The two Qt signals of the thread. \<open>Time_updated n\<close> is \<^verbatim>\<open>time_updated.emit(n)\<close>,
  \<open>Timer_finished\<close> is \<^verbatim>\<open>timer_finished.emit()\<close>.
\<close>

datatype signal = Time_updated int | Timer_finished

text \<open>
  The attributes set in \<^verbatim>\<open>TimerThread.__init__\<close>, and \<open>qthread_running\<close> for what
  \<^verbatim>\<open>QThread.isRunning()\<close> answers (a thread is executing \<^verbatim>\<open>run\<close>).
\<close>

record timer_thread =
  duration :: int
  remaining :: int
  is_running :: bool
  is_paused :: bool
  qthread_running :: bool

definition init_timer_thread :: timer_thread where
  "init_timer_thread =
     \<lparr>duration = 0, remaining = 0, is_running = False, is_paused = False,
      qthread_running = False\<rparr>"

definition start_timer :: "int \<Rightarrow> timer_thread \<Rightarrow> timer_thread" where
  "start_timer d t =
     t\<lparr>duration := d, remaining := d, is_running := True, is_paused := False,
       qthread_running := True\<rparr>"

definition pause_timer :: "timer_thread \<Rightarrow> timer_thread" where
  "pause_timer t = t\<lparr>is_paused := True\<rparr>"

definition resume_timer :: "timer_thread \<Rightarrow> timer_thread" where
  "resume_timer t = t\<lparr>is_paused := False\<rparr>"

definition stop_timer :: "timer_thread \<Rightarrow> timer_thread" where
  "stop_timer t =
     t\<lparr>is_running := False, is_paused := False, remaining := 0, qthread_running := False\<rparr>"

text \<open>
  One pass through the body of \<^verbatim>\<open>while self.is_running\<close> in \<^verbatim>\<open>run\<close>, up to the
  \<^verbatim>\<open>msleep\<close>: the new attributes, the signals emitted in order, and whether the pass
  left the loop by \<^verbatim>\<open>break\<close>.
\<close>

definition loop_body :: "timer_thread \<Rightarrow> timer_thread \<times> signal list \<times> bool" where
  "loop_body t =
     (if \<not> is_paused t then
        (if remaining t \<le> 0
         then (t\<lparr>is_running := False\<rparr>, [Time_updated (remaining t), Timer_finished], True)
         else (t\<lparr>remaining := remaining t - 1\<rparr>, [Time_updated (remaining t)], False))
      else (t, [], False))"

text \<open>
  \<^verbatim>\<open>run\<close> with nothing else touching the attributes. The loop need not end (a paused
  thread polls for ever), so the result is an option: \<open>None\<close> is a loop that never
  returns. The second argument collects the signals emitted so far.
\<close>

partial_function (option) run :: "timer_thread \<Rightarrow> signal list \<Rightarrow> (timer_thread \<times> signal list) option"
  where
  "run t out =
     (if is_running t then
        (case loop_body t of
           (t', sigs, brk) \<Rightarrow> if brk then Some (t', out @ sigs) else run t' (out @ sigs))
      else Some (t, out))"

text \<open>
  The thread together with the caller: between two passes of the loop (during the
  \<^verbatim>\<open>msleep\<close>) the owner may call \<^verbatim>\<open>pause_timer\<close> or \<^verbatim>\<open>resume_timer\<close>. \<open>Tick\<close> is one
  pass of the thread: the loop test, then the body. A thread whose loop has ended
  executes nothing more.
\<close>

datatype event = Tick | Pause | Resume

definition iteration :: "timer_thread \<Rightarrow> timer_thread \<times> signal list" where
  "iteration t =
     (if \<not> qthread_running t then (t, [])
      else if is_running t then
        (case loop_body t of
           (t', sigs, brk) \<Rightarrow> (if brk then t'\<lparr>qthread_running := False\<rparr> else t', sigs))
      else (t\<lparr>qthread_running := False\<rparr>, []))"

fun step :: "event \<Rightarrow> timer_thread \<Rightarrow> timer_thread \<times> signal list" where
  "step Tick t = iteration t"
| "step Pause t = (pause_timer t, [])"
| "step Resume t = (resume_timer t, [])"

fun exec :: "event list \<Rightarrow> timer_thread \<Rightarrow> timer_thread \<times> signal list" where
  "exec [] t = (t, [])"
| "exec (e # es) t =
     (case step e t of (t', sigs) \<Rightarrow> (case exec es t' of (t'', sigs') \<Rightarrow> (t'', sigs @ sigs')))"

text \<open>The ticks of a schedule at which the thread decremented \<open>remaining\<close>.\<close>

fun decrements :: "event list \<Rightarrow> timer_thread \<Rightarrow> nat" where
  "decrements [] t = 0"
| "decrements (e # es) t =
     (let t' = fst (step e t)
      in (if e = Tick \<and> remaining t' < remaining t then 1 else 0) + decrements es t')"

fun is_time_updated :: "signal \<Rightarrow> bool" where
  "is_time_updated (Time_updated n) = True"
| "is_time_updated Timer_finished = False"

text \<open>The values \<open>n, n - 1, ..., 0\<close>, as the loop emits them.\<close>

fun countdown :: "nat \<Rightarrow> int list" where
  "countdown 0 = [0]"
| "countdown (Suc n) = int (Suc n) # countdown n"

text \<open>What an uninterrupted \<^verbatim>\<open>run\<close> emits, and how many \<^verbatim>\<open>time_updated\<close> signals a trace holds.\<close>

definition emitted :: "timer_thread \<Rightarrow> signal list option" where
  "emitted t = map_option snd (run t [])"

definition time_updated_count :: "signal list \<Rightarrow> nat" where
  "time_updated_count sigs = length (filter is_time_updated sigs)"

text \<open>A one-minute countdown that is paused three times on its way.\<close>

definition paused_run :: "event list" where
  "paused_run =
     replicate 20 Tick @ [Pause] @ replicate 5 Tick @ [Resume] @ replicate 10 Tick
       @ [Pause, Resume, Pause] @ replicate 3 Tick @ [Resume] @ replicate 31 Tick"

section \<open>Persistence: class DatabaseManager\<close>

text \<open>
  A \<^verbatim>\<open>datetime\<close> is represented by the instant it denotes, counted in microseconds
  from \<^verbatim>\<open>datetime.min\<close>, the midnight that begins year 1; \<^verbatim>\<open>datetime.max\<close>, the last
  microsecond of year 9999, is day 3652059 of that count. The ISO texts that
  \<^verbatim>\<open>isoformat()\<close> writes into the \<^verbatim>\<open>date\<close> column compare as texts the way their
  instants compare, and SQLite's \<^verbatim>\<open>date(...)\<close> keeps the calendar day.
\<close>

type_synonym datetime = int




text \<open>The two tables of \<^verbatim>\<open>create_tables\<close>; a row is a record of its columns.\<close>

record session_row =
  ss_id :: int
  ss_date :: datetime
  ss_session_type :: string
  ss_duration :: int
  ss_completed :: int
  ss_task_name :: string
  ss_notes :: string

record settings_row =
  st_id :: int
  st_work_duration :: int
  st_short_break :: int
  st_long_break :: int
  st_long_break_interval :: int
  st_auto_start_breaks :: int
  st_auto_start_work :: int
  st_sound_enabled :: int
  st_username :: string

record tables =
  sessions :: "session_row list"
  settings :: "settings_row list"

text \<open>
  The manager holds one connection for the life of the program. \<open>conn\<close> is what the
  connection reads: the database with the statements of its open transaction applied.
  \<open>disk\<close> is the database as of the last \<^verbatim>\<open>commit()\<close>.
\<close>

record DatabaseManager =
  conn :: tables
  disk :: tables

definition commit :: "DatabaseManager \<Rightarrow> DatabaseManager" where
  "commit db = db\<lparr>disk := conn db\<rparr>"

datatype error = OperationalError | IntegrityError | OverflowError | ZeroDivisionError

text \<open>
  What a method does: it returns, or it raises. The state is the one reached when the
  method returned or when the exception left it.
\<close>

datatype 's outcome = Done 's | Raised error 's

fun state_of :: "'s outcome \<Rightarrow> 's" where
  "state_of (Done s) = s"
| "state_of (Raised e s) = s"


text \<open>The value bound to a \<^verbatim>\<open>?\<close>: a Python \<^verbatim>\<open>int\<close> or a \<^verbatim>\<open>str\<close>.\<close>

datatype sqlval = IntV int | TextV string

definition settings_columns :: "string list" where
  "settings_columns =
     [''id'', ''work_duration'', ''short_break'', ''long_break'', ''long_break_interval'',
      ''auto_start_breaks'', ''auto_start_work'', ''sound_enabled'', ''username'']"

text \<open>The columns of the Settings record itself: every column but the row id.\<close>

definition settings_fields :: "string list" where
  "settings_fields = tl settings_columns"

text \<open>
  The key of a keyword argument is pasted into the statement, and SQLite decides what
  it names. Keys are taken to be identifiers, as a keyword argument written in Python
  is: letters, digits, the underscore and bytes above ASCII, not starting with a digit.
  SQLite matches such a name against the columns of the table without regard to the
  case of ASCII letters, and \<^verbatim>\<open>rowid\<close>, \<^verbatim>\<open>oid\<close> and \<^verbatim>\<open>_rowid_\<close> name the
  \<^verbatim>\<open>INTEGER PRIMARY KEY\<close> column, here \<^verbatim>\<open>id\<close>.
\<close>

definition lower :: "char \<Rightarrow> char" where
  "lower c =
     (case map_of (zip ''ABCDEFGHIJKLMNOPQRSTUVWXYZ'' ''abcdefghijklmnopqrstuvwxyz'') c of
        Some d \<Rightarrow> d
      | None \<Rightarrow> c)"

definition ident_start :: "char \<Rightarrow> bool" where
  "ident_start c =
     (c \<in> set ''abcdefghijklmnopqrstuvwxyzABCDEFGHIJKLMNOPQRSTUVWXYZ_'' \<or> digit7 c)"

definition ident_char :: "char \<Rightarrow> bool" where
  "ident_char c = (ident_start c \<or> c \<in> set ''0123456789'')"

definition is_identifier :: "string \<Rightarrow> bool" where
  "is_identifier k =
     (case k of [] \<Rightarrow> False | c # cs \<Rightarrow> ident_start c \<and> list_all ident_char cs)"

definition resolve :: "string \<Rightarrow> string option" where
  "resolve k =
     (let l = map lower k
      in if l \<in> set settings_columns then Some l
         else if l \<in> set [''rowid'', ''oid'', ''_rowid_''] then Some ''id''
         else None)"

text \<open>
  Binding a value to a \<^verbatim>\<open>?\<close>: a Python \<^verbatim>\<open>int\<close> has to fit SQLite's 64-bit signed
  integer, or \<^verbatim>\<open>execute\<close> raises \<^verbatim>\<open>OverflowError\<close>.
\<close>

definition int64 :: "int \<Rightarrow> bool" where
  "int64 n = (- 9223372036854775808 \<le> n \<and> n \<le> 9223372036854775807)"

fun bindable :: "sqlval \<Rightarrow> bool" where
  "bindable (IntV n) = int64 n"
| "bindable (TextV s) = True"

text \<open>
  Decimal texts. \<open>int_literal\<close> reads an optional minus sign and one or more digits;
  \<open>str_int\<close> writes an integer the way SQLite and Python both do.
\<close>

definition digit_val :: "char \<Rightarrow> nat option" where
  "digit_val c = map_of (zip ''0123456789'' [0, 1, 2, 3, 4, 5, 6, 7, 8, 9]) c"

fun digits_val :: "string \<Rightarrow> nat \<Rightarrow> nat option" where
  "digits_val [] acc = Some acc"
| "digits_val (c # cs) acc =
     (case digit_val c of None \<Rightarrow> None | Some d \<Rightarrow> digits_val cs (10 * acc + d))"

definition int_literal :: "string \<Rightarrow> int option" where
  "int_literal s =
     (case s of
        [] \<Rightarrow> None
      | c # cs \<Rightarrow>
          if c = CHR ''-''
          then (if cs = [] then None else map_option (\<lambda>n. - int n) (digits_val cs 0))
          else map_option int (digits_val s 0))"

fun dec :: "nat \<Rightarrow> string" where
  "dec n =
     (if n < 10 then [''0123456789'' ! n]
      else dec (n div 10) @ [''0123456789'' ! (n mod 10)])"

declare dec.simps [simp del]

definition str_int :: "int \<Rightarrow> string" where
  "str_int n = (if n < 0 then CHR ''-'' # dec (nat (- n)) else dec (nat n))"

text \<open>
  What a column keeps of a bound value (column affinity). \<^verbatim>\<open>username TEXT\<close> keeps a
  text and turns an integer into its decimal text. The INTEGER columns keep an
  integer and turn a text that is a decimal integer literal within 64 bits into that
  integer. Of the other texts, those that SQLite reads as a number (with blanks, a
  plus sign, a fraction, an exponent, or too large for 64 bits) are stored as an
  integer or as a REAL, and the rest as the text itself; these cases have no value
  here (\<open>None\<close>) and nothing is stated about them.
\<close>

definition store :: "string \<Rightarrow> sqlval \<Rightarrow> sqlval option" where
  "store c v =
     (case v of
        IntV n \<Rightarrow> Some (if c = ''username'' then TextV (str_int n) else IntV n)
      | TextV s \<Rightarrow>
          if c = ''username'' then Some (TextV s)
          else (case int_literal s of
                  Some n \<Rightarrow> if int64 n then Some (IntV n) else None
                | None \<Rightarrow> None))"

text \<open>The values a column keeps as they are: a 64-bit integer, or a text for \<^verbatim>\<open>username\<close>.\<close>

fun storable :: "string \<Rightarrow> sqlval \<Rightarrow> bool" where
  "storable c (IntV n) = (c \<noteq> ''username'' \<and> int64 n)"
| "storable c (TextV s) = (c = ''username'')"

definition column_value :: "string \<Rightarrow> settings_row \<Rightarrow> sqlval option" where
  "column_value k r =
     (if k = ''id'' then Some (IntV (st_id r))
      else if k = ''work_duration'' then Some (IntV (st_work_duration r))
      else if k = ''short_break'' then Some (IntV (st_short_break r))
      else if k = ''long_break'' then Some (IntV (st_long_break r))
      else if k = ''long_break_interval'' then Some (IntV (st_long_break_interval r))
      else if k = ''auto_start_breaks'' then Some (IntV (st_auto_start_breaks r))
      else if k = ''auto_start_work'' then Some (IntV (st_auto_start_work r))
      else if k = ''sound_enabled'' then Some (IntV (st_sound_enabled r))
      else if k = ''username'' then Some (TextV (st_username r))
      else None)"

fun assign :: "string \<Rightarrow> sqlval \<Rightarrow> settings_row \<Rightarrow> settings_row" where
  "assign k (IntV n) r =
     (if k = ''id'' then r\<lparr>st_id := n\<rparr>
      else if k = ''work_duration'' then r\<lparr>st_work_duration := n\<rparr>
      else if k = ''short_break'' then r\<lparr>st_short_break := n\<rparr>
      else if k = ''long_break'' then r\<lparr>st_long_break := n\<rparr>
      else if k = ''long_break_interval'' then r\<lparr>st_long_break_interval := n\<rparr>
      else if k = ''auto_start_breaks'' then r\<lparr>st_auto_start_breaks := n\<rparr>
      else if k = ''auto_start_work'' then r\<lparr>st_auto_start_work := n\<rparr>
      else if k = ''sound_enabled'' then r\<lparr>st_sound_enabled := n\<rparr>
      else r)"
| "assign k (TextV s) r = (if k = ''username'' then r\<lparr>st_username := s\<rparr> else r)"

text \<open>
  One \<^verbatim>\<open>cursor.execute\<close> of \<^verbatim>\<open>UPDATE settings SET {key} = ? WHERE id = ?\<close>, in the
  order things happen. The statement is prepared: a name that resolves to no column
  is refused (\<^verbatim>\<open>sqlite3.OperationalError\<close>). The two values are bound
  (\<^verbatim>\<open>OverflowError\<close>). The statement runs: where no row has the id it changes nothing;
  otherwise the column takes what it keeps of the value, and a new \<^verbatim>\<open>id\<close> that
  another row already has breaks the primary key (\<^verbatim>\<open>sqlite3.IntegrityError\<close>).
  \<open>Not_modelled\<close> marks the two places nothing is stated about: a key that is not an
  identifier, and a value the column keeps in a form the rows here cannot hold.
\<close>

datatype stmt_result =
  Updated "settings_row list" | No_such_column | Too_large | Unique_violation | Not_modelled

definition update_stmt :: "string \<Rightarrow> sqlval \<Rightarrow> int \<Rightarrow> settings_row list \<Rightarrow> stmt_result" where
  "update_stmt k v rid rows =
     (if \<not> is_identifier k then Not_modelled
      else case resolve k of
        None \<Rightarrow> No_such_column
      | Some c \<Rightarrow>
          if \<not> bindable v then Too_large
          else if rid \<notin> set (map st_id rows) then Updated rows
          else case store c v of
            None \<Rightarrow> Not_modelled
          | Some w \<Rightarrow>
              if c = ''id'' \<and> w \<noteq> IntV rid \<and> w \<in> set (map (IntV \<circ> st_id) rows)
              then Unique_violation
              else Updated (map (\<lambda>r. if st_id r = rid then assign c w r else r) rows))"

text \<open>\<^verbatim>\<open>SELECT * FROM settings ORDER BY id DESC LIMIT 1\<close>, then \<^verbatim>\<open>fetchone()\<close>.\<close>

fun latest :: "settings_row list \<Rightarrow> settings_row option" where
  "latest [] = None"
| "latest (r # rs) =
     (case latest rs of
        None \<Rightarrow> Some r
      | Some r' \<Rightarrow> if st_id r < st_id r' then Some r' else Some r)"

definition get_settings :: "DatabaseManager \<Rightarrow> settings_row option" where
  "get_settings db = latest (settings (conn db))"

text \<open>
  The \<^verbatim>\<open>for key, value in kwargs.items()\<close> loop of \<^verbatim>\<open>update_settings\<close>: the keyword
  arguments in the order they were written, each one its own statement on the row
  \<^verbatim>\<open>current[0]\<close>. An exception leaves the loop, and the method, at once. The result
  is \<open>None\<close> only where a statement is \<open>Not_modelled\<close>.
\<close>

fun update_loop ::
  "(string \<times> sqlval) list \<Rightarrow> int \<Rightarrow> DatabaseManager \<Rightarrow> DatabaseManager outcome option" where
  "update_loop [] rid db = Some (Done db)"
| "update_loop ((k, v) # kwargs) rid db =
     (case update_stmt k v rid (settings (conn db)) of
        Updated rows \<Rightarrow> update_loop kwargs rid (db\<lparr>conn := (conn db)\<lparr>settings := rows\<rparr>\<rparr>)
      | No_such_column \<Rightarrow> Some (Raised OperationalError db)
      | Too_large \<Rightarrow> Some (Raised OverflowError db)
      | Unique_violation \<Rightarrow> Some (Raised IntegrityError db)
      | Not_modelled \<Rightarrow> None)"

definition update_settings ::
  "(string \<times> sqlval) list \<Rightarrow> DatabaseManager \<Rightarrow> DatabaseManager outcome option" where
  "update_settings kwargs db =
     (case get_settings db of
        None \<Rightarrow> Some (Done (commit db))
      | Some current \<Rightarrow>
          (case update_loop kwargs (st_id current) db of
             Some (Done db') \<Rightarrow> Some (Done (commit db'))
           | other \<Rightarrow> other))"

text \<open>
  Keyword arguments that name fields of the Settings record, as the schema writes them,
  with values the columns keep as they are; and what their assignments make of one
  row, applied in order.
\<close>

definition typed_fields :: "(string \<times> sqlval) list \<Rightarrow> bool" where
  "typed_fields kwargs = list_all (\<lambda>(k, v). k \<in> set settings_fields \<and> storable k v) kwargs"

text \<open>
  What \<^verbatim>\<open>get_settings\<close> reads in a column after \<^verbatim>\<open>update_settings\<close> was called with
  one keyword argument and returned.
\<close>

definition read_back :: "string \<Rightarrow> sqlval \<Rightarrow> DatabaseManager \<Rightarrow> sqlval option" where
  "read_back f v db =
     (case update_settings [(f, v)] db of
        Some (Done db') \<Rightarrow>
          (case get_settings db' of Some r \<Rightarrow> column_value f r | None \<Rightarrow> None)
      | other \<Rightarrow> None)"

definition assign_all :: "(string \<times> sqlval) list \<Rightarrow> settings_row \<Rightarrow> settings_row" where
  "assign_all kwargs r = fold (\<lambda>(k, v). assign k v) kwargs r"

definition set_rows :: "settings_row list \<Rightarrow> DatabaseManager \<Rightarrow> DatabaseManager" where
  "set_rows rows db = db\<lparr>conn := (conn db)\<lparr>settings := rows\<rparr>\<rparr>"

text \<open>The id an AUTOINCREMENT column gives the next row of a table nothing was deleted from.\<close>

definition next_id :: "int list \<Rightarrow> int" where
  "next_id ids = fold max ids 0 + 1"

definition add_session ::
  "datetime \<Rightarrow> string \<Rightarrow> int \<Rightarrow> int \<Rightarrow> string \<Rightarrow> string \<Rightarrow> DatabaseManager \<Rightarrow> DatabaseManager"
  where
  "add_session now ty dur completed task_name notes db =
     commit (db\<lparr>conn := (conn db)\<lparr>sessions := sessions (conn db) @
       [\<lparr>ss_id = next_id (map ss_id (sessions (conn db))), ss_date = now,
         ss_session_type = ty, ss_duration = dur, ss_completed = completed,
         ss_task_name = task_name, ss_notes = notes\<rparr>]\<rparr>\<rparr>)"

text \<open>The default row; the user name is the source's literal, byte for byte.\<close>

definition default_settings :: "int \<Rightarrow> settings_row" where
  "default_settings i =
     \<lparr>st_id = i, st_work_duration = 25, st_short_break = 5, st_long_break = 15,
      st_long_break_interval = 4, st_auto_start_breaks = 0, st_auto_start_work = 0,
      st_sound_enabled = 1,
      st_username =
        ''Kullan'' @ [CHR 0xC6, CHR 0x92, CHR 0xC2, CHR 0xB1] @ ''c''
          @ [CHR 0xC6, CHR 0x92, CHR 0xC2, CHR 0xB1]\<rparr>"

definition create_tables :: "DatabaseManager \<Rightarrow> DatabaseManager" where
  "create_tables db =
     commit (if settings (conn db) = []
             then db\<lparr>conn := (conn db)\<lparr>settings := [default_settings (next_id [])]\<rparr>\<rparr>
             else db)"

text \<open>
  A database whose tables are empty, and the database of a first start: the file did not
  exist, and \<^verbatim>\<open>create_tables\<close> has run.
\<close>

definition empty_database :: DatabaseManager where
  "empty_database =
     \<lparr>conn = \<lparr>sessions = [], settings = []\<rparr>, disk = \<lparr>sessions = [], settings = []\<rparr>\<rparr>"

definition new_database :: DatabaseManager where
  "new_database = create_tables empty_database"








section \<open>Session cycle: classes SettingsDialog and PomodoroApp\<close>

text \<open>
  What the dialog's widgets have been given when OK is pressed. A spin box answers
  with \<open>spin_value\<close>, within its range.
\<close>

record SettingsDialog =
  username_edit :: string
  work_spin :: int
  short_break_spin :: int
  long_break_spin :: int
  long_break_interval_spin :: int
  auto_start_breaks_check :: bool
  auto_start_work_check :: bool
  sound_enabled_check :: bool

text \<open>
  \<^verbatim>\<open>QSpinBox.value()\<close>: a spin box holds its value between the minimum and the maximum
  that \<^verbatim>\<open>init_ui\<close> has set.
\<close>

definition spin_value :: "int \<Rightarrow> int \<Rightarrow> int \<Rightarrow> int" where
  "spin_value lo hi x = max lo (min hi x)"

text \<open>The keyword arguments of the call in \<^verbatim>\<open>save_settings\<close>, in the order written there.\<close>

definition dialog_kwargs :: "SettingsDialog \<Rightarrow> (string \<times> sqlval) list" where
  "dialog_kwargs dlg =
     [(''username'', TextV (username_edit dlg)),
      (''work_duration'', IntV (spin_value 1 60 (work_spin dlg))),
      (''short_break'', IntV (spin_value 1 30 (short_break_spin dlg))),
      (''long_break'', IntV (spin_value 1 60 (long_break_spin dlg))),
      (''long_break_interval'', IntV (spin_value 2 10 (long_break_interval_spin dlg))),
      (''auto_start_breaks'', IntV (of_bool (auto_start_breaks_check dlg))),
      (''auto_start_work'', IntV (of_bool (auto_start_work_check dlg))),
      (''sound_enabled'', IntV (of_bool (sound_enabled_check dlg)))]"

definition save_settings :: "SettingsDialog \<Rightarrow> DatabaseManager \<Rightarrow> DatabaseManager outcome option"
  where
  "save_settings dlg db = update_settings (dialog_kwargs dlg) db"

text \<open>
  The duration the dialog's spin boxes hold for a session type, chosen as
  \<^verbatim>\<open>get_current_duration\<close> does.
\<close>

definition new_duration :: "SettingsDialog \<Rightarrow> string \<Rightarrow> int" where
  "new_duration dlg ty =
     (if ty = ''work'' then spin_value 1 60 (work_spin dlg)
      else if ty = ''short_break'' then spin_value 1 30 (short_break_spin dlg)
      else spin_value 1 60 (long_break_spin dlg))"

definition edited_dialog :: SettingsDialog where
  "edited_dialog =
     \<lparr>username_edit = ''user'', work_spin = 50, short_break_spin = 10, long_break_spin = 30,
      long_break_interval_spin = 4, auto_start_breaks_check = False,
      auto_start_work_check = False, sound_enabled_check = True\<rparr>"

text \<open>
  The attributes of the window that are not widgets, and the text of the task input.
  \<open>is_running_app\<close> is the window's own \<^verbatim>\<open>is_running\<close>. What the methods do to labels,
  buttons, the progress ring and the charts (\<^verbatim>\<open>update_timer_display\<close>,
  \<^verbatim>\<open>update_profile_stats\<close>, \<^verbatim>\<open>update_charts\<close>) changes none of these attributes and
  writes nothing to the database; those calls are left out.
\<close>

record PomodoroApp =
  db_manager :: DatabaseManager
  timer_thread :: timer_thread
  current_session :: int
  session_type :: string
  is_running_app :: bool
  work_duration :: int
  short_break_duration :: int
  long_break_duration :: int
  long_break_interval :: int
  auto_start_breaks :: bool
  auto_start_work :: bool
  sound_enabled :: bool
  task_input :: string

definition load_settings :: "PomodoroApp \<Rightarrow> PomodoroApp" where
  "load_settings app =
     (case get_settings (db_manager app) of
        None \<Rightarrow> app
      | Some s \<Rightarrow>
          app\<lparr>work_duration := st_work_duration s,
              short_break_duration := st_short_break s,
              long_break_duration := st_long_break s,
              long_break_interval := st_long_break_interval s,
              auto_start_breaks := (st_auto_start_breaks s \<noteq> 0),
              auto_start_work := (st_auto_start_work s \<noteq> 0),
              sound_enabled := (st_sound_enabled s \<noteq> 0)\<rparr>)"

text \<open>
  \<^verbatim>\<open>PomodoroApp.__init__\<close> on a database. The duration attributes exist only once
  \<^verbatim>\<open>load_settings\<close> has found a row; \<^verbatim>\<open>create_tables\<close> has made sure there is one,
  so the zeros below are never read.
\<close>

definition new_app :: "DatabaseManager \<Rightarrow> PomodoroApp" where
  "new_app db =
     load_settings
       \<lparr>db_manager = create_tables db, timer_thread = init_timer_thread,
        current_session = 0, session_type = ''work'', is_running_app = False,
        work_duration = 0, short_break_duration = 0, long_break_duration = 0,
        long_break_interval = 0, auto_start_breaks = False, auto_start_work = False,
        sound_enabled = False, task_input = []\<rparr>"

definition get_current_duration :: "PomodoroApp \<Rightarrow> int" where
  "get_current_duration app =
     (if session_type app = ''work'' then work_duration app
      else if session_type app = ''short_break'' then short_break_duration app
      else long_break_duration app)"

definition start_timer_app :: "PomodoroApp \<Rightarrow> PomodoroApp" where
  "start_timer_app app =
     (if \<not> is_running_app app then
        app\<lparr>timer_thread := start_timer (get_current_duration app * 60) (timer_thread app),
            is_running_app := True\<rparr>
      else if is_paused (timer_thread app) then
        app\<lparr>timer_thread := resume_timer (timer_thread app)\<rparr>
      else app)"

definition pause_timer_app :: "PomodoroApp \<Rightarrow> PomodoroApp" where
  "pause_timer_app app =
     (if is_running_app app \<and> \<not> is_paused (timer_thread app) then
        app\<lparr>timer_thread := pause_timer (timer_thread app)\<rparr>
      else if is_running_app app \<and> is_paused (timer_thread app) then
        app\<lparr>timer_thread := resume_timer (timer_thread app)\<rparr>
      else app)"

definition reset_timer :: "PomodoroApp \<Rightarrow> PomodoroApp" where
  "reset_timer app =
     app\<lparr>timer_thread := stop_timer (timer_thread app), is_running_app := False\<rparr>"

text \<open>
  \<^verbatim>\<open>open_settings\<close> when the dialog is closed with OK: \<^verbatim>\<open>save_settings\<close> writes the
  widgets' values, and the window reloads its attributes.
\<close>

definition open_settings :: "SettingsDialog \<Rightarrow> PomodoroApp \<Rightarrow> PomodoroApp outcome option" where
  "open_settings dlg app =
     (case save_settings dlg (db_manager app) of
        None \<Rightarrow> None
      | Some (Done db) \<Rightarrow> Some (Done (load_settings (app\<lparr>db_manager := db\<rparr>)))
      | Some (Raised e db) \<Rightarrow> Some (Raised e (app\<lparr>db_manager := db\<rparr>)))"

text \<open>
  The end of \<^verbatim>\<open>move_to_next_session\<close>: the next session starts by itself when the
  setting for its kind says so.
\<close>

definition auto_start :: "PomodoroApp \<Rightarrow> PomodoroApp" where
  "auto_start app =
     (if (session_type app \<noteq> ''work'' \<and> auto_start_breaks app)
         \<or> (session_type app = ''work'' \<and> auto_start_work app)
      then start_timer_app app else app)"

text \<open>Python's \<^verbatim>\<open>%\<close> on integers is \<open>mod\<close>, but raises when the divisor is 0.\<close>

definition move_to_next_session :: "PomodoroApp \<Rightarrow> PomodoroApp outcome" where
  "move_to_next_session app =
     (if session_type app = ''work'' then
        (let app1 = app\<lparr>current_session := current_session app + 1\<rparr>
         in if long_break_interval app1 = 0 then Raised ZeroDivisionError app1
            else if current_session app1 mod long_break_interval app1 = 0
            then Done (auto_start (app1\<lparr>session_type := ''long_break''\<rparr>))
            else Done (auto_start (app1\<lparr>session_type := ''short_break''\<rparr>)))
      else Done (auto_start (app\<lparr>session_type := ''work''\<rparr>)))"

text \<open>The slot of the thread's \<^verbatim>\<open>timer_finished\<close> signal; \<open>now\<close> is the clock's reading.\<close>

definition timer_finished :: "datetime \<Rightarrow> PomodoroApp \<Rightarrow> PomodoroApp outcome" where
  "timer_finished now app =
     (let app1 = app\<lparr>is_running_app := False\<rparr>;
          task_name = task_input app1;
          dur = get_current_duration app1
      in move_to_next_session
           (app1\<lparr>db_manager :=
              add_session now (session_type app1) dur 1 task_name [] (db_manager app1)\<rparr>))"

text \<open>
  Sessions completed one after the other, each at its own reading of the clock: the
  type of the session that ended and the type the window moved to, up to an exception.
\<close>

fun completions :: "datetime list \<Rightarrow> PomodoroApp \<Rightarrow> (string \<times> string) list" where
  "completions [] app = []"
| "completions (now # nows) app =
     (case timer_finished now app of
        Done app' \<Rightarrow> (session_type app, session_type app') # completions nows app'
      | Raised e app' \<Rightarrow> [])"

text \<open>
  The window after a first start with the Start button pressed, and the window in its
  first short break.
\<close>

definition running_app :: PomodoroApp where
  "running_app = start_timer_app (new_app new_database)"

definition break_app :: PomodoroApp where
  "break_app = (new_app new_database)\<lparr>session_type := ''short_break'', current_session := 1\<rparr>"

definition session_history :: "PomodoroApp \<Rightarrow> session_row list" where
  "session_history app = sessions (conn (db_manager app))"

section \<open>The countdown\<close>

lemma length_countdown: "length (countdown n) = Suc n"
  by (induction n) simp_all

lemma countdown_decreasing: "sorted_wrt (>) (countdown n) \<and> set (countdown n) \<subseteq> {0..int n}"
  by (induction n) auto

lemma hd_countdown: "hd (countdown n) = int n"
  by (cases n) simp_all

lemma last_countdown: "last (countdown n) = 0"
  by (induction n) (simp_all, metis countdown.elims list.discI)

lemma run_countdown_aux:
  "is_running t \<Longrightarrow> \<not> is_paused t \<Longrightarrow> remaining t = int n \<Longrightarrow>
   run t out =
     Some (t\<lparr>remaining := 0, is_running := False\<rparr>,
           out @ map Time_updated (countdown n) @ [Timer_finished])"
proof (induction n arbitrary: t out)
  case 0
  then show ?case
    by (subst run.simps) (simp add: loop_body_def)
next
  case (Suc n)
  let ?t = "t\<lparr>remaining := remaining t - 1\<rparr>"
  have "run t out = run ?t (out @ [Time_updated (remaining t)])"
    using Suc.prems by (subst run.simps) (simp add: loop_body_def)
  also have "\<dots> = Some (?t\<lparr>remaining := 0, is_running := False\<rparr>,
      (out @ [Time_updated (remaining t)]) @ map Time_updated (countdown n) @ [Timer_finished])"
    using Suc.prems by (intro Suc.IH) simp_all
  finally show ?case
    using Suc.prems by simp
qed

lemma run_start_timer:
  "run (start_timer (int n) t) [] =
     Some ((start_timer (int n) t)\<lparr>remaining := 0, is_running := False\<rparr>,
           map Time_updated (countdown n) @ [Timer_finished])"
  using run_countdown_aux [of "start_timer (int n) t" n "[]"]
  by (simp add: start_timer_def)

text \<open>
  The thread driven pass by pass agrees with \<^verbatim>\<open>run\<close>: \<open>n + 1\<close> passes end the
  countdown from \<open>n\<close> with the same signals.
\<close>

lemma exec_ticks:
  "is_running t \<Longrightarrow> \<not> is_paused t \<Longrightarrow> qthread_running t \<Longrightarrow> remaining t = int n \<Longrightarrow>
   exec (replicate (Suc n) Tick) t =
     (t\<lparr>remaining := 0, is_running := False, qthread_running := False\<rparr>,
      map Time_updated (countdown n) @ [Timer_finished])"
proof (induction n arbitrary: t)
  case 0
  then show ?case by (simp add: iteration_def loop_body_def)
next
  case (Suc n)
  from Suc.prems
  have "iteration t = (t\<lparr>remaining := remaining t - 1\<rparr>, [Time_updated (remaining t)])"
    by (simp add: iteration_def loop_body_def)
  with Suc.IH [of "t\<lparr>remaining := remaining t - 1\<rparr>"] Suc.prems show ?case
    by simp
qed

text \<open>A thread that is paused and never resumed stays in its loop.\<close>

lemma run_returns_unpaused:
  assumes "run t out = Some res"
  shows "is_running t \<longrightarrow> \<not> is_paused t"
  using assms
proof (induction rule: run.raw_induct [rotated 1, consumes 1])
  case (1 run t out res)
  then show ?case
    by (auto simp: loop_body_def split: if_splits)
qed

lemma run_paused: "is_running t \<Longrightarrow> is_paused t \<Longrightarrow> run t out = None"
  using run_returns_unpaused [of t out] by (cases "run t out") auto

text \<open>
  Claim C1, as the code has it. Started with \<open>d * 60\<close> seconds and left alone, \<^verbatim>\<open>run\<close>
  returns. It has emitted \<open>d * 60 + 1\<close> \<^verbatim>\<open>time_updated\<close> signals and then, directly
  after the one that carries 0, one \<^verbatim>\<open>timer_finished\<close>. The values fall strictly,
  from the full duration \<open>d * 60\<close>, which is emitted before the first decrement, to 0.
\<close>

theorem run_uninterrupted:
  "\<exists>t' vals. run (start_timer (int (d * 60)) t) [] =
       Some (t', map Time_updated vals @ [Timer_finished])
     \<and> length vals = d * 60 + 1 \<and> sorted_wrt (>) vals
     \<and> hd vals = int (d * 60) \<and> last vals = 0
     \<and> remaining t' = 0 \<and> \<not> is_running t'"
  using run_start_timer [of "d * 60" t]
  by (auto simp: length_countdown countdown_decreasing hd_countdown last_countdown)

text \<open>
  Claim C1 as stated asks for exactly \<open>d * 60\<close> \<^verbatim>\<open>time_updated\<close> signals. A one-minute
  countdown emits 61.
\<close>

theorem run_uninterrupted_counterexample:
  "map_option time_updated_count (emitted (start_timer (1 * 60) init_timer_thread)) = Some 61"
  using run_start_timer [of 60 init_timer_thread]
  by (simp add: emitted_def time_updated_count_def length_countdown o_def)

section \<open>Pausing\<close>

lemma iteration_paused:
  "is_paused t \<Longrightarrow> remaining (fst (iteration t)) = remaining t \<and> snd (iteration t) = []"
  by (simp add: iteration_def loop_body_def)

lemma step_dead:
  "\<not> qthread_running t \<Longrightarrow>
   \<not> qthread_running (fst (step e t)) \<and> snd (step e t) = []
   \<and> remaining (fst (step e t)) = remaining t"
  by (cases e) (simp_all add: iteration_def pause_timer_def resume_timer_def)

lemma exec_dead: "\<not> qthread_running t \<Longrightarrow> snd (exec es t) = [] \<and> decrements es t = 0"
proof (induction es arbitrary: t)
  case Nil
  then show ?case by simp
next
  case (Cons e es)
  from step_dead [OF Cons.prems, of e] Cons.IH [of "fst (step e t)"]
  show ?case by (simp add: split_beta Let_def)
qed

lemma decrements_until_finished:
  "is_running t \<Longrightarrow> qthread_running t \<Longrightarrow> 0 \<le> remaining t \<Longrightarrow>
   Timer_finished \<in> set (snd (exec es t)) \<Longrightarrow> decrements es t = nat (remaining t)"
proof (induction es arbitrary: t)
  case Nil
  then show ?case by simp
next
  case (Cons e es)
  show ?case
  proof (cases e)
    case Pause
    with Cons.prems Cons.IH [of "pause_timer t"] show ?thesis
      by (simp add: split_beta pause_timer_def)
  next
    case Resume
    with Cons.prems Cons.IH [of "resume_timer t"] show ?thesis
      by (simp add: split_beta resume_timer_def)
  next
    case Tick
    show ?thesis
    proof (cases "is_paused t")
      case True
      with Cons.prems have "iteration t = (t, [])"
        by (simp add: iteration_def loop_body_def)
      with Tick Cons.prems Cons.IH [of t] show ?thesis
        by (simp add: split_beta)
    next
      case False
      show ?thesis
      proof (cases "remaining t = 0")
        case True
        with False Cons.prems
        have it: "iteration t = (t\<lparr>is_running := False, qthread_running := False\<rparr>,
                     [Time_updated 0, Timer_finished])"
          by (simp add: iteration_def loop_body_def)
        have "decrements es (t\<lparr>is_running := False, qthread_running := False\<rparr>) = 0"
          using exec_dead by simp
        with Tick it True show ?thesis by simp
      next
        case pos: False
        with False Cons.prems
        have it: "iteration t = (t\<lparr>remaining := remaining t - 1\<rparr>, [Time_updated (remaining t)])"
          by (simp add: iteration_def loop_body_def)
        with Tick Cons.prems
        have "Timer_finished \<in> set (snd (exec es (t\<lparr>remaining := remaining t - 1\<rparr>)))"
          by (simp add: split_beta)
        with Cons.IH [of "t\<lparr>remaining := remaining t - 1\<rparr>"] Cons.prems pos
        have "decrements es (t\<lparr>remaining := remaining t - 1\<rparr>) = nat (remaining t - 1)"
          by simp
        with Tick it pos Cons.prems show ?thesis
          by (simp add: nat_diff_distrib)
      qed
    qed
  qed
qed

text \<open>
  Claim C7. A pass of the loop made while \<open>is_paused\<close> holds changes \<open>remaining\<close> by
  nothing and emits nothing. And whatever \<^verbatim>\<open>pause_timer\<close> and \<^verbatim>\<open>resume_timer\<close> calls
  fall between the passes of a countdown started with \<open>d * 60\<close> seconds: when the
  thread has emitted \<^verbatim>\<open>timer_finished\<close>, it has decremented exactly \<open>d * 60\<close> times.
\<close>

theorem pause_keeps_count:
  "(is_paused t \<longrightarrow> remaining (fst (step Tick t)) = remaining t \<and> snd (step Tick t) = [])
   \<and> (Timer_finished \<in> set (snd (exec es (start_timer (int (d * 60)) t0)))
        \<longrightarrow> decrements es (start_timer (int (d * 60)) t0) = d * 60)"
  using iteration_paused [of t]
    decrements_until_finished [of "start_timer (int (d * 60)) t0" es]
  by (simp add: start_timer_def nat_mult_distrib)

theorem pause_keeps_count_witness:
  "is_paused (pause_timer init_timer_thread)
   \<and> remaining (fst (step Tick (pause_timer init_timer_thread)))
       = remaining (pause_timer init_timer_thread)
   \<and> Timer_finished \<in> set (snd (exec paused_run (start_timer (int (1 * 60)) init_timer_thread)))
   \<and> decrements paused_run (start_timer (int (1 * 60)) init_timer_thread) = 1 * 60"
proof -
  have fin: "Timer_finished \<in> set (snd (exec paused_run (start_timer (int (1 * 60)) init_timer_thread)))"
    by code_simp
  have p: "is_paused (pause_timer init_timer_thread)"
    by (simp add: pause_timer_def)
  from pause_keeps_count [of "pause_timer init_timer_thread" paused_run 1 init_timer_thread] fin p
  show ?thesis by simp
qed

section \<open>A first start\<close>

lemma new_database_eq:
  "new_database =
     \<lparr>conn = \<lparr>sessions = [], settings = [default_settings 1]\<rparr>,
      disk = \<lparr>sessions = [], settings = [default_settings 1]\<rparr>\<rparr>"
  by (simp add: new_database_def empty_database_def create_tables_def commit_def next_id_def)

lemma get_settings_new_database: "get_settings new_database = Some (default_settings 1)"
  by (simp add: new_database_eq get_settings_def)

lemma new_app_new_database:
  "new_app new_database =
     \<lparr>db_manager = new_database, timer_thread = init_timer_thread,
      current_session = 0, session_type = ''work'', is_running_app = False,
      work_duration = 25, short_break_duration = 5, long_break_duration = 15,
      long_break_interval = 4, auto_start_breaks = False, auto_start_work = False,
      sound_enabled = True, task_input = []\<rparr>"
proof -
  have "create_tables new_database = new_database"
    by (simp add: new_database_eq create_tables_def commit_def)
  then show ?thesis
    by (simp add: new_app_def load_settings_def get_settings_new_database default_settings_def)
qed

lemma running_app_eq:
  "running_app = (new_app new_database)
     \<lparr>timer_thread := start_timer 1500 init_timer_thread, is_running_app := True\<rparr>"
  by (simp add: running_app_def new_app_new_database start_timer_app_def get_current_duration_def)

section \<open>Starting a running engine\<close>

text \<open>
  Claim C6 as stated has \<^verbatim>\<open>start\<close> fail on a running engine and leave it as it was.
  \<^verbatim>\<open>TimerThread.start_timer\<close> has no check and raises nothing: on an engine that is
  running, not paused, with 1500 seconds left, \<^verbatim>\<open>start_timer(60)\<close> sets \<open>remaining\<close> to 60.
\<close>

theorem start_guard_counterexample:
  "is_running (start_timer 1500 init_timer_thread)
   \<and> \<not> is_paused (start_timer 1500 init_timer_thread)
   \<and> remaining (start_timer 1500 init_timer_thread) = 1500
   \<and> remaining (start_timer 60 (start_timer 1500 init_timer_thread)) = 60"
  by (simp add: start_timer_def init_timer_thread_def)

text \<open>
  Claim C6, as the code has it. The engine's \<^verbatim>\<open>start_timer(d)\<close> succeeds from every
  state: afterwards \<open>remaining\<close> is \<open>d\<close> and the engine is running and not paused. The
  guard is the window's: \<^verbatim>\<open>PomodoroApp.start_timer\<close> changes nothing while a session
  is running and not paused, resumes a paused one, and calls the engine's
  \<^verbatim>\<open>start_timer\<close> with the current duration in seconds only when no session is running.
\<close>

theorem start_guard:
  "remaining (start_timer d t) = d \<and> is_running (start_timer d t) \<and> \<not> is_paused (start_timer d t)
   \<and> (is_running_app app \<and> \<not> is_paused (timer_thread app) \<longrightarrow> start_timer_app app = app)
   \<and> (is_running_app app \<and> is_paused (timer_thread app) \<longrightarrow>
        start_timer_app app = app\<lparr>timer_thread := resume_timer (timer_thread app)\<rparr>)
   \<and> (\<not> is_running_app app \<longrightarrow>
        timer_thread (start_timer_app app)
          = start_timer (get_current_duration app * 60) (timer_thread app))"
  by (simp add: start_timer_def start_timer_app_def)

text \<open>
  The three cases of C6 on the window of a first start: Start pressed twice, Start
  pressed while paused, and the first Start, which counts 25 minutes.
\<close>

theorem start_guard_witness:
  "is_running_app running_app \<and> \<not> is_paused (timer_thread running_app)
   \<and> remaining (timer_thread running_app) = 1500
   \<and> start_timer_app running_app = running_app
   \<and> is_running_app (pause_timer_app running_app)
   \<and> is_paused (timer_thread (pause_timer_app running_app))
   \<and> start_timer_app (pause_timer_app running_app) = running_app
   \<and> \<not> is_running_app (new_app new_database)
   \<and> remaining (timer_thread (start_timer_app (new_app new_database))) = 25 * 60"
  using start_guard [of _ _ running_app] start_guard [of _ _ "pause_timer_app running_app"]
    start_guard [of _ _ "new_app new_database"]
  by (simp add: running_app_eq new_app_new_database start_timer_def pause_timer_app_def
      pause_timer_def resume_timer_def get_current_duration_def init_timer_thread_def)

section \<open>The session cycle\<close>

lemma auto_start_frame:
  "session_type (auto_start app) = session_type app
   \<and> current_session (auto_start app) = current_session app
   \<and> long_break_interval (auto_start app) = long_break_interval app
   \<and> db_manager (auto_start app) = db_manager app"
  by (simp add: auto_start_def start_timer_app_def)

lemma move_work:
  "session_type app = ''work'' \<Longrightarrow> long_break_interval app \<noteq> 0 \<Longrightarrow>
   \<exists>app'. move_to_next_session app = Done app'
     \<and> current_session app' = current_session app + 1
     \<and> session_type app' =
         (if (current_session app + 1) mod long_break_interval app = 0
          then ''long_break'' else ''short_break'')
     \<and> long_break_interval app' = long_break_interval app
     \<and> db_manager app' = db_manager app"
  by (simp add: move_to_next_session_def Let_def auto_start_frame)

lemma move_break:
  "session_type app \<noteq> ''work'' \<Longrightarrow>
   \<exists>app'. move_to_next_session app = Done app'
     \<and> current_session app' = current_session app
     \<and> session_type app' = ''work''
     \<and> long_break_interval app' = long_break_interval app
     \<and> db_manager app' = db_manager app"
  by (simp add: move_to_next_session_def auto_start_frame)

lemma finished_work:
  "session_type app = ''work'' \<Longrightarrow> long_break_interval app \<noteq> 0 \<Longrightarrow>
   \<exists>app'. timer_finished now app = Done app'
     \<and> current_session app' = current_session app + 1
     \<and> session_type app' =
         (if (current_session app + 1) mod long_break_interval app = 0
          then ''long_break'' else ''short_break'')
     \<and> long_break_interval app' = long_break_interval app"
  unfolding timer_finished_def Let_def
  using move_work [of "app\<lparr>is_running_app := False,
     db_manager := add_session now (session_type app)
       (get_current_duration (app\<lparr>is_running_app := False\<rparr>)) 1 (task_input app) []
       (db_manager app)\<rparr>"]
  by auto

lemma finished_break:
  "session_type app \<noteq> ''work'' \<Longrightarrow>
   \<exists>app'. timer_finished now app = Done app'
     \<and> current_session app' = current_session app
     \<and> session_type app' = ''work''
     \<and> long_break_interval app' = long_break_interval app"
  unfolding timer_finished_def Let_def
  using move_break [of "app\<lparr>is_running_app := False,
     db_manager := add_session now (session_type app)
       (get_current_duration (app\<lparr>is_running_app := False\<rparr>)) 1 (task_input app) []
       (db_manager app)\<rparr>"]
  by auto

lemma four_work_sessions:
  assumes "long_break_interval app = 4" "current_session app = 0" "session_type app = ''work''"
  shows "completions [n1, n2, n3, n4, n5, n6, n7] app =
     [(''work'', ''short_break''), (''short_break'', ''work''),
      (''work'', ''short_break''), (''short_break'', ''work''),
      (''work'', ''short_break''), (''short_break'', ''work''),
      (''work'', ''long_break'')]"
proof -
  from finished_work [of app n1] assms obtain a1 where
    a1: "timer_finished n1 app = Done a1" "current_session a1 = 1"
      "session_type a1 = ''short_break''" "long_break_interval a1 = 4"
    by auto
  from finished_break [of a1 n2] a1 obtain a2 where
    a2: "timer_finished n2 a1 = Done a2" "current_session a2 = 1"
      "session_type a2 = ''work''" "long_break_interval a2 = 4"
    by auto
  from finished_work [of a2 n3] a2 obtain a3 where
    a3: "timer_finished n3 a2 = Done a3" "current_session a3 = 2"
      "session_type a3 = ''short_break''" "long_break_interval a3 = 4"
    by auto
  from finished_break [of a3 n4] a3 obtain a4 where
    a4: "timer_finished n4 a3 = Done a4" "current_session a4 = 2"
      "session_type a4 = ''work''" "long_break_interval a4 = 4"
    by auto
  from finished_work [of a4 n5] a4 obtain a5 where
    a5: "timer_finished n5 a4 = Done a5" "current_session a5 = 3"
      "session_type a5 = ''short_break''" "long_break_interval a5 = 4"
    by auto
  from finished_break [of a5 n6] a5 obtain a6 where
    a6: "timer_finished n6 a5 = Done a6" "current_session a6 = 3"
      "session_type a6 = ''work''" "long_break_interval a6 = 4"
    by auto
  from finished_work [of a6 n7] a6 obtain a7 where
    a7: "timer_finished n7 a6 = Done a7" "current_session a7 = 4"
      "session_type a7 = ''long_break''" "long_break_interval a7 = 4"
    by auto
  from assms a1 a2 a3 a4 a5 a6 a7 show ?thesis by simp
qed

text \<open>
  Claim C2. When a work session completes and the long-break interval is not 0,
  \<^verbatim>\<open>timer_finished\<close> returns with \<open>current_session\<close> one higher, and the next type is
  \<^verbatim>\<open>long_break\<close> if the new count is a multiple of the interval, \<^verbatim>\<open>short_break\<close> if not.
  When a break completes, the next type is \<^verbatim>\<open>work\<close> and the count is unchanged. With
  interval 4 and count 0, four work sessions completed in a row, each break between them
  completed too, are followed by short, short, short and long break.
\<close>

theorem transition_rule:
  "(session_type app = ''work'' \<and> long_break_interval app \<noteq> 0 \<longrightarrow>
      (\<exists>app'. timer_finished now app = Done app'
         \<and> current_session app' = current_session app + 1
         \<and> session_type app' =
             (if current_session app' mod long_break_interval app' = 0
              then ''long_break'' else ''short_break'')
         \<and> long_break_interval app' = long_break_interval app))
   \<and> (session_type app \<noteq> ''work'' \<longrightarrow>
      (\<exists>app'. timer_finished now app = Done app'
         \<and> current_session app' = current_session app
         \<and> session_type app' = ''work''
         \<and> long_break_interval app' = long_break_interval app))
   \<and> (long_break_interval app = 4 \<and> current_session app = 0 \<and> session_type app = ''work'' \<longrightarrow>
      completions [n1, n2, n3, n4, n5, n6, n7] app =
        [(''work'', ''short_break''), (''short_break'', ''work''),
         (''work'', ''short_break''), (''short_break'', ''work''),
         (''work'', ''short_break''), (''short_break'', ''work''),
         (''work'', ''long_break'')])"
proof (intro conjI impI)
  assume "session_type app = ''work'' \<and> long_break_interval app \<noteq> 0"
  with finished_work [of app now]
  show "\<exists>app'. timer_finished now app = Done app'
         \<and> current_session app' = current_session app + 1
         \<and> session_type app' =
             (if current_session app' mod long_break_interval app' = 0
              then ''long_break'' else ''short_break'')
         \<and> long_break_interval app' = long_break_interval app"
    by auto
next
  assume "session_type app \<noteq> ''work''"
  with finished_break [of app now]
  show "\<exists>app'. timer_finished now app = Done app'
         \<and> current_session app' = current_session app
         \<and> session_type app' = ''work''
         \<and> long_break_interval app' = long_break_interval app"
    by auto
next
  assume "long_break_interval app = 4 \<and> current_session app = 0 \<and> session_type app = ''work''"
  then show "completions [n1, n2, n3, n4, n5, n6, n7] app =
        [(''work'', ''short_break''), (''short_break'', ''work''),
         (''work'', ''short_break''), (''short_break'', ''work''),
         (''work'', ''short_break''), (''short_break'', ''work''),
         (''work'', ''long_break'')]"
    using four_work_sessions [of app] by simp
qed

text \<open>
  C2 on the window of a first start (defaults: interval 4, count 0, a work session), and
  on its first short break.
\<close>

theorem transition_rule_witness:
  "session_type (new_app new_database) = ''work''
   \<and> long_break_interval (new_app new_database) = 4
   \<and> current_session (new_app new_database) = 0
   \<and> (\<exists>app'. timer_finished 0 (new_app new_database) = Done app'
         \<and> current_session app' = 1 \<and> session_type app' = ''short_break'')
   \<and> session_type break_app \<noteq> ''work''
   \<and> (\<exists>app'. timer_finished 0 break_app = Done app'
         \<and> current_session app' = 1 \<and> session_type app' = ''work'')
   \<and> map snd (filter (\<lambda>p. fst p = ''work'')
        (completions [1, 2, 3, 4, 5, 6, 7] (new_app new_database)))
      = [''short_break'', ''short_break'', ''short_break'', ''long_break'']"
proof -
  have h: "session_type (new_app new_database) = ''work''"
    "long_break_interval (new_app new_database) = 4"
    "current_session (new_app new_database) = 0"
    by (simp_all add: new_app_new_database)
  have b: "session_type break_app \<noteq> ''work''" "current_session break_app = 1"
    by (simp_all add: break_app_def)
  from transition_rule [of "new_app new_database" 0 1 2 3 4 5 6 7]
    transition_rule [of break_app 0] h b
  show ?thesis by auto
qed

section \<open>What is written to the history\<close>

lemma timer_finished_history:
  "\<exists>r. session_history (state_of (timer_finished now app)) = session_history app @ [r]
      \<and> ss_completed r = 1 \<and> ss_session_type r = session_type app
      \<and> ss_duration r = get_current_duration app \<and> ss_task_name r = task_input app
      \<and> sessions (disk (db_manager (state_of (timer_finished now app))))
          = session_history app @ [r]"
proof -
  have frame: "db_manager (state_of (move_to_next_session a)) = db_manager a" for a
    by (simp add: move_to_next_session_def Let_def auto_start_frame)
  have "db_manager (state_of (timer_finished now app))
      = add_session now (session_type app) (get_current_duration app) 1 (task_input app) []
          (db_manager app)"
    by (simp add: timer_finished_def Let_def frame get_current_duration_def)
  then show ?thesis
    by (simp add: session_history_def add_session_def commit_def)
qed

text \<open>
  Claim C3. \<^verbatim>\<open>reset_timer\<close> leaves the session history as it was. \<^verbatim>\<open>timer_finished\<close>,
  whether it returns or raises, has appended exactly one row, committed, with
  \<open>completed = 1\<close>, for the session type that ended.
\<close>

theorem history_written:
  "session_history (reset_timer app) = session_history app
   \<and> (\<exists>r. session_history (state_of (timer_finished now app)) = session_history app @ [r]
        \<and> ss_completed r = 1 \<and> ss_session_type r = session_type app
        \<and> sessions (disk (db_manager (state_of (timer_finished now app))))
            = session_history app @ [r])"
proof -
  have "session_history (reset_timer app) = session_history app"
    by (simp add: session_history_def reset_timer_def)
  with timer_finished_history [of now app] show ?thesis by auto
qed

section \<open>Updating the settings\<close>

lemma in_fields: "k \<in> set settings_fields \<Longrightarrow> k \<in> set settings_columns \<and> k \<noteq> ''id''"
  by (auto simp: settings_fields_def settings_columns_def)

lemma resolve_column: "k \<in> set settings_columns \<Longrightarrow> resolve k = Some k \<and> is_identifier k"
  by (auto simp: settings_columns_def resolve_def lower_def is_identifier_def ident_start_def
      ident_char_def)

lemma storable_store: "storable c v \<Longrightarrow> bindable v \<and> store c v = Some v"
  by (cases v) (simp_all add: store_def)

lemma assign_id: "k \<noteq> ''id'' \<Longrightarrow> st_id (assign k v r) = st_id r"
  by (cases v) simp_all

lemma map_no_row: "rid \<notin> set (map st_id rows) \<Longrightarrow> map (\<lambda>r. if st_id r = rid then f r else r) rows = rows"
  by (induction rows) auto

lemma update_stmt_resolved:
  assumes "is_identifier k" "resolve k = Some c" "c \<noteq> ''id''" "bindable v" "store c v = Some w"
  shows "update_stmt k v rid rows
    = Updated (map (\<lambda>r. if st_id r = rid then assign c w r else r) rows)"
  using assms map_no_row [of rid rows "assign c w"]
  by (simp add: update_stmt_def)

lemma update_stmt_field:
  "k \<in> set settings_fields \<Longrightarrow> storable k v \<Longrightarrow>
   update_stmt k v rid rows = Updated (map (\<lambda>r. if st_id r = rid then assign k v r else r) rows)"
  using in_fields [of k] resolve_column [of k] storable_store [of k v]
    update_stmt_resolved [of k k v v rid rows]
  by simp


lemma update_stmt_too_large:
  "k \<in> set settings_columns \<Longrightarrow> \<not> int64 n \<Longrightarrow> update_stmt k (IntV n) rid rows = Too_large"
  using resolve_column [of k] by (simp add: update_stmt_def)

lemma assign_all_id: "typed_fields kwargs \<Longrightarrow> st_id (assign_all kwargs r) = st_id r"
proof (induction kwargs arbitrary: r)
  case Nil
  then show ?case by (simp add: assign_all_def)
next
  case (Cons a kwargs)
  obtain k v where a: "a = (k, v)" by (cases a)
  with Cons.prems have "k \<noteq> ''id''" "typed_fields kwargs"
    using in_fields [of k] by (auto simp: typed_fields_def)
  with Cons.IH [of "assign k v r"] a show ?case
    by (simp add: assign_all_def assign_id)
qed

lemma update_loop_fields:
  "typed_fields pre \<Longrightarrow>
   update_loop (pre @ rest) rid db =
     update_loop rest rid
       (set_rows (map (\<lambda>r. if st_id r = rid then assign_all pre r else r) (settings (conn db))) db)"
proof (induction pre arbitrary: db)
  case Nil
  then show ?case by (simp add: assign_all_def set_rows_def cong: if_cong)
next
  case (Cons a pre)
  obtain k v where a: "a = (k, v)" by (cases a)
  from Cons.prems a have kv: "k \<in> set settings_fields" "storable k v" and pre: "typed_fields pre"
    by (auto simp: typed_fields_def)
  have id: "st_id (assign k v r) = st_id r" for r
    using in_fields [OF kv(1)] by (simp add: assign_id)
  let ?db = "set_rows (map (\<lambda>r. if st_id r = rid then assign k v r else r) (settings (conn db))) db"
  have "update_loop ((a # pre) @ rest) rid db = update_loop (pre @ rest) rid ?db"
    using a kv by (simp add: update_stmt_field set_rows_def)
  also have "\<dots> = update_loop rest rid
       (set_rows (map (\<lambda>r. if st_id r = rid then assign_all pre r else r) (settings (conn ?db))) ?db)"
    by (rule Cons.IH [OF pre])
  also have "map (\<lambda>r. if st_id r = rid then assign_all pre r else r) (settings (conn ?db))
      = map (\<lambda>r. if st_id r = rid then assign_all (a # pre) r else r) (settings (conn db))"
    by (simp add: set_rows_def a assign_all_def id)
  finally show ?case by (simp add: set_rows_def)
qed



lemma latest_map:
  "(\<And>r. st_id (f r) = st_id r) \<Longrightarrow> latest (map f rows) = map_option f (latest rows)"
  by (induction rows) (auto split: option.splits)

lemma latest_None: "latest rows = None \<Longrightarrow> rows = []"
  by (cases rows) (auto split: option.splits if_splits)

lemma latest_set_rows:
  assumes "typed_fields kwargs" "get_settings db = Some cur"
  shows "get_settings (set_rows (map (\<lambda>r. if st_id r = st_id cur then assign_all kwargs r else r)
            (settings (conn db))) db) = Some (assign_all kwargs cur)"
proof -
  have "st_id ((\<lambda>r. if st_id r = st_id cur then assign_all kwargs r else r) r) = st_id r" for r
    using assign_all_id [OF assms(1)] by simp
  from latest_map [of "\<lambda>r. if st_id r = st_id cur then assign_all kwargs r else r", OF this]
  show ?thesis using assms(2) by (simp add: get_settings_def set_rows_def)
qed

lemma update_settings_fields:
  assumes "typed_fields kwargs" "get_settings db = Some cur"
  shows "\<exists>db'. update_settings kwargs db = Some (Done db') \<and> disk db' = conn db'
     \<and> sessions (conn db') = sessions (conn db)
     \<and> get_settings db' = Some (assign_all kwargs cur)"
proof -
  let ?rows = "map (\<lambda>r. if st_id r = st_id cur then assign_all kwargs r else r) (settings (conn db))"
  from update_loop_fields [OF assms(1), of "[]" "st_id cur" db]
  have "update_loop kwargs (st_id cur) db = Some (Done (set_rows ?rows db))" by simp
  with assms(2) have "update_settings kwargs db = Some (Done (commit (set_rows ?rows db)))"
    by (simp add: update_settings_def)
  moreover have "get_settings (commit (set_rows ?rows db)) = Some (assign_all kwargs cur)"
    using latest_set_rows [OF assms] by (simp add: get_settings_def commit_def)
  ultimately show ?thesis by (simp add: commit_def set_rows_def)
qed

text \<open>One keyword argument whose column keeps \<open>w\<close> of the value.\<close>

lemma latest_in_rows: "latest rows = Some cur \<Longrightarrow> st_id cur \<in> set (map st_id rows)"
  by (induction rows arbitrary: cur) (auto split: option.splits if_splits)

lemma update_settings_one:
  assumes "get_settings db = Some cur" "f \<in> set settings_fields" "bindable v" "store f v = Some w"
  shows "\<exists>db'. update_settings [(f, v)] db = Some (Done db')
     \<and> get_settings db' = Some (assign f w cur)"
proof -
  let ?g = "\<lambda>r. if st_id r = st_id cur then assign f w r else r"
  have id: "st_id (?g r) = st_id r" for r
    using in_fields [OF assms(2)] by (simp add: assign_id)
  from assms in_fields [OF assms(2)] resolve_column [of f]
  have "update_stmt f v (st_id cur) (settings (conn db)) = Updated (map ?g (settings (conn db)))"
    by (simp add: update_stmt_resolved)
  with assms(1)
  have "update_settings [(f, v)] db
      = Some (Done (commit (db\<lparr>conn := (conn db)\<lparr>settings := map ?g (settings (conn db))\<rparr>\<rparr>)))"
    by (simp add: update_settings_def)
  moreover from latest_map [of ?g, OF id] assms(1)
  have "get_settings (commit (db\<lparr>conn := (conn db)\<lparr>settings := map ?g (settings (conn db))\<rparr>\<rparr>))
      = Some (assign f w cur)"
    by (simp add: get_settings_def commit_def)
  ultimately show ?thesis by blast
qed

lemma column_value_assign:
  "k \<in> set settings_columns \<Longrightarrow> storable k v \<Longrightarrow> column_value k (assign k v r) = Some v"
  by (cases v) (auto simp: settings_columns_def column_value_def)

lemma column_value_other:
  "g \<noteq> k \<Longrightarrow> column_value g (assign k v r) = column_value g r"
  by (cases v) (auto simp: column_value_def)

text \<open>
  Claim C5, as the code has it. Where a settings row exists and \<open>f\<close> is a field of
  the Settings record: a value of the column's own kind, an integer within 64 bits for
  the integer fields or a text for \<^verbatim>\<open>username\<close>, is read back by \<^verbatim>\<open>get_settings\<close> as
  it was written, and every other column, the id too, holds what it held. A text that
  is a decimal integer literal within 64 bits, written to an integer field, is read
  back as that integer. An integer within 64 bits written to \<^verbatim>\<open>username\<close> is read back
  as its decimal text. In both cases the other columns are unchanged as well. An
  integer outside 64 bits makes \<^verbatim>\<open>update_settings\<close> raise \<^verbatim>\<open>OverflowError\<close>, and
  nothing is written.
\<close>

theorem update_round_trip:
  assumes "get_settings db = Some cur" "f \<in> set settings_fields"
  shows
    "((f \<noteq> ''username'' \<and> v = IntV n \<and> - 9223372036854775808 \<le> n \<and> n \<le> 9223372036854775807)
        \<or> (f = ''username'' \<and> v = TextV s) \<longrightarrow>
       (\<exists>db' cur'. update_settings [(f, v)] db = Some (Done db')
          \<and> get_settings db' = Some cur'
          \<and> column_value f cur' = Some v
          \<and> (\<forall>g. g \<noteq> f \<longrightarrow> column_value g cur' = column_value g cur)))
     \<and> (f \<noteq> ''username'' \<and> int_literal s = Some n
          \<and> - 9223372036854775808 \<le> n \<and> n \<le> 9223372036854775807 \<longrightarrow>
       (\<exists>db' cur'. update_settings [(f, TextV s)] db = Some (Done db')
          \<and> get_settings db' = Some cur'
          \<and> column_value f cur' = Some (IntV n)
          \<and> (\<forall>g. g \<noteq> f \<longrightarrow> column_value g cur' = column_value g cur)))
     \<and> (f = ''username'' \<and> - 9223372036854775808 \<le> n \<and> n \<le> 9223372036854775807 \<longrightarrow>
       (\<exists>db' cur'. update_settings [(f, IntV n)] db = Some (Done db')
          \<and> get_settings db' = Some cur'
          \<and> column_value f cur' = Some (TextV (str_int n))
          \<and> (\<forall>g. g \<noteq> f \<longrightarrow> column_value g cur' = column_value g cur)))
     \<and> (n < - 9223372036854775808 \<or> 9223372036854775807 < n \<longrightarrow>
          update_settings [(f, IntV n)] db = Some (Raised OverflowError db))"
proof -
  have col: "f \<in> set settings_columns" "f \<noteq> ''id''"
    using in_fields [OF assms(2)] by simp_all
  have kept: "\<exists>db' cur'. update_settings [(f, v')] db = Some (Done db')
          \<and> get_settings db' = Some cur'
          \<and> column_value f cur' = Some w
          \<and> (\<forall>g. g \<noteq> f \<longrightarrow> column_value g cur' = column_value g cur)"
    if "bindable v'" "store f v' = Some w" "storable f w" for v' w
  proof -
    from update_settings_one [OF assms that(1,2)] obtain db' where
      "update_settings [(f, v')] db = Some (Done db')" "get_settings db' = Some (assign f w cur)"
      by blast
    moreover have "column_value f (assign f w cur) = Some w"
      using col(1) that(3) by (simp only: column_value_assign)
    moreover have "\<forall>g. g \<noteq> f \<longrightarrow> column_value g (assign f w cur) = column_value g cur"
      by (simp add: column_value_other)
    ultimately show ?thesis by blast
  qed
  have 1: "(f \<noteq> ''username'' \<and> v = IntV n \<and> - 9223372036854775808 \<le> n \<and> n \<le> 9223372036854775807)
        \<or> (f = ''username'' \<and> v = TextV s) \<longrightarrow>
       (\<exists>db' cur'. update_settings [(f, v)] db = Some (Done db')
          \<and> get_settings db' = Some cur'
          \<and> column_value f cur' = Some v
          \<and> (\<forall>g. g \<noteq> f \<longrightarrow> column_value g cur' = column_value g cur))"
  proof
    assume "(f \<noteq> ''username'' \<and> v = IntV n \<and> - 9223372036854775808 \<le> n \<and> n \<le> 9223372036854775807)
        \<or> (f = ''username'' \<and> v = TextV s)"
    then have "storable f v" by (auto simp: int64_def)
    with storable_store [of f v] kept [of v v] show "\<exists>db' cur'. update_settings [(f, v)] db = Some (Done db')
          \<and> get_settings db' = Some cur'
          \<and> column_value f cur' = Some v
          \<and> (\<forall>g. g \<noteq> f \<longrightarrow> column_value g cur' = column_value g cur)"
      by simp
  qed
  have 2: "f \<noteq> ''username'' \<and> int_literal s = Some n
          \<and> - 9223372036854775808 \<le> n \<and> n \<le> 9223372036854775807 \<longrightarrow>
       (\<exists>db' cur'. update_settings [(f, TextV s)] db = Some (Done db')
          \<and> get_settings db' = Some cur'
          \<and> column_value f cur' = Some (IntV n)
          \<and> (\<forall>g. g \<noteq> f \<longrightarrow> column_value g cur' = column_value g cur))"
    using kept [of "TextV s" "IntV n"] by (simp add: store_def int64_def)
  have 3: "f = ''username'' \<and> - 9223372036854775808 \<le> n \<and> n \<le> 9223372036854775807 \<longrightarrow>
       (\<exists>db' cur'. update_settings [(f, IntV n)] db = Some (Done db')
          \<and> get_settings db' = Some cur'
          \<and> column_value f cur' = Some (TextV (str_int n))
          \<and> (\<forall>g. g \<noteq> f \<longrightarrow> column_value g cur' = column_value g cur))"
    using kept [of "IntV n" "TextV (str_int n)"] by (simp add: store_def int64_def)
  have 4: "n < - 9223372036854775808 \<or> 9223372036854775807 < n \<longrightarrow>
          update_settings [(f, IntV n)] db = Some (Raised OverflowError db)"
    using assms(1) update_stmt_too_large [OF col(1), of n "st_id cur" "settings (conn db)"]
    by (auto simp: update_settings_def int64_def)
  from 1 2 3 4 show ?thesis by blast
qed

text \<open>
  Claim C5 as stated has every value read back as it was written. On the database of
  a first start the text \<^verbatim>\<open>'30'\<close> written to \<^verbatim>\<open>work_duration\<close> is read back as the
  integer 30, the integer 5 written to \<^verbatim>\<open>username\<close> is read back as the text
  \<^verbatim>\<open>'5'\<close>, and \<open>2^63\<close> is not written at all.
\<close>

theorem update_round_trip_counterexample:
  "read_back ''work_duration'' (TextV ''30'') new_database = Some (IntV 30)
   \<and> read_back ''username'' (IntV 5) new_database = Some (TextV ''5'')
   \<and> update_settings [(''work_duration'', IntV 9223372036854775808)] new_database
       = Some (Raised OverflowError new_database)"
  by (simp add: read_back_def update_settings_def get_settings_def new_database_eq commit_def
      update_stmt_def is_identifier_def ident_start_def ident_char_def resolve_def lower_def
      settings_columns_def store_def int_literal_def digit_val_def int64_def str_int_def
      dec.simps column_value_def default_settings_def)

text \<open>
  C5 on the database of a first start: the long break set to 20, to the text
  \<^verbatim>\<open>'-030'\<close>, the user name set to -1205, and the long break set to \<open>- 2^63 - 1\<close>.
\<close>

theorem update_round_trip_witness:
  "get_settings new_database = Some (default_settings 1)
   \<and> ''long_break'' \<in> set settings_fields \<and> ''username'' \<in> set settings_fields
   \<and> (\<exists>db' cur'. update_settings [(''long_break'', IntV 20)] new_database = Some (Done db')
        \<and> get_settings db' = Some cur'
        \<and> column_value ''long_break'' cur' = Some (IntV 20)
        \<and> column_value ''work_duration'' cur' = Some (IntV 25))
   \<and> int_literal ''-030'' = Some (- 30)
   \<and> (\<exists>db' cur'. update_settings [(''long_break'', TextV ''-030'')] new_database = Some (Done db')
        \<and> get_settings db' = Some cur'
        \<and> column_value ''long_break'' cur' = Some (IntV (- 30)))
   \<and> (\<exists>db' cur'. update_settings [(''username'', IntV (- 1205))] new_database = Some (Done db')
        \<and> get_settings db' = Some cur'
        \<and> column_value ''username'' cur' = Some (TextV ''-1205''))
   \<and> update_settings [(''long_break'', IntV (- 9223372036854775809))] new_database
        = Some (Raised OverflowError new_database)"
proof -
  have f: "''long_break'' \<in> set settings_fields" "''username'' \<in> set settings_fields"
    by (simp_all add: settings_fields_def settings_columns_def)
  have l: "int_literal ''-030'' = Some (- 30)"
    by (simp add: int_literal_def digit_val_def)
  have s: "str_int (- 1205) = ''-1205''"
    by (simp add: str_int_def dec.simps)
  have w: "column_value ''work_duration'' (default_settings 1) = Some (IntV 25)"
    by (simp add: default_settings_def column_value_def)
  note g = get_settings_new_database
  from update_round_trip [OF g f(1), of "IntV 20" 20 "[]", THEN conjunct1]
  obtain db1 cur1 where
    a: "update_settings [(''long_break'', IntV 20)] new_database = Some (Done db1)"
      "get_settings db1 = Some cur1" "column_value ''long_break'' cur1 = Some (IntV 20)"
      "\<forall>g. g \<noteq> ''long_break'' \<longrightarrow> column_value g cur1 = column_value g (default_settings 1)"
    by auto
  from a(4) w have "column_value ''work_duration'' cur1 = Some (IntV 25)"
    by simp
  with a have 1: "\<exists>db' cur'. update_settings [(''long_break'', IntV 20)] new_database = Some (Done db')
        \<and> get_settings db' = Some cur'
        \<and> column_value ''long_break'' cur' = Some (IntV 20)
        \<and> column_value ''work_duration'' cur' = Some (IntV 25)"
    by blast
  from update_round_trip [OF g f(1), of _ "- 30" "''-030''", THEN conjunct2, THEN conjunct1] l
  obtain db2 cur2 where
    "update_settings [(''long_break'', TextV ''-030'')] new_database = Some (Done db2)"
    "get_settings db2 = Some cur2" "column_value ''long_break'' cur2 = Some (IntV (- 30))"
    by auto
  then have 2: "\<exists>db' cur'. update_settings [(''long_break'', TextV ''-030'')] new_database = Some (Done db')
        \<and> get_settings db' = Some cur'
        \<and> column_value ''long_break'' cur' = Some (IntV (- 30))"
    by blast
  from update_round_trip [OF g f(2), of _ "- 1205", THEN conjunct2, THEN conjunct2, THEN conjunct1] s
  obtain db3 cur3 where
    "update_settings [(''username'', IntV (- 1205))] new_database = Some (Done db3)"
    "get_settings db3 = Some cur3" "column_value ''username'' cur3 = Some (TextV ''-1205'')"
    by auto
  then have 3: "\<exists>db' cur'. update_settings [(''username'', IntV (- 1205))] new_database = Some (Done db')
        \<and> get_settings db' = Some cur'
        \<and> column_value ''username'' cur' = Some (TextV ''-1205'')"
    by blast
  from update_round_trip [OF g f(1), of _ "- 9223372036854775809", THEN conjunct2, THEN conjunct2,
      THEN conjunct2]
  have 4: "update_settings [(''long_break'', IntV (- 9223372036854775809))] new_database
        = Some (Raised OverflowError new_database)"
    by simp
  from g f l 1 2 3 4 show ?thesis by (intro conjI)
qed




text \<open>
  Claim C10. Where \<^verbatim>\<open>get_settings\<close> finds no row, \<^verbatim>\<open>update_settings\<close> returns whatever
  its arguments are; it has executed no statement and only committed. What the
  connection reads is unchanged and still has no settings row, and a manager with no
  open transaction is left exactly as it was.
\<close>

theorem update_no_row:
  "get_settings db = None \<Longrightarrow>
   update_settings kwargs db = Some (Done (commit db))
   \<and> conn (commit db) = conn db \<and> settings (conn (commit db)) = []
   \<and> (disk db = conn db \<longrightarrow> commit db = db)"
proof -
  assume n: "get_settings db = None"
  then have "settings (conn db) = []"
    by (simp add: get_settings_def latest_None)
  with n show ?thesis by (simp add: update_settings_def commit_def)
qed

text \<open>C10 on a database with empty tables, the arguments naming a known and an unknown field.\<close>

theorem update_no_row_witness:
  "get_settings empty_database = None
   \<and> update_settings [(''work_duration'', IntV 30), (''bogus'', IntV 1)] empty_database
       = Some (Done empty_database)
   \<and> settings (conn empty_database) = [] \<and> disk empty_database = conn empty_database"
proof -
  have e: "get_settings empty_database = None"
    by (simp add: get_settings_def empty_database_def)
  have d: "disk empty_database = conn empty_database" "settings (conn empty_database) = []"
    by (simp_all add: empty_database_def)
  from update_no_row [OF e, of "[(''work_duration'', IntV 30), (''bogus'', IntV 1)]"] e d
  show ?thesis by simp
qed

section \<open>Settings edited during a countdown\<close>

lemma int64_spin_value: "int64 lo \<Longrightarrow> int64 hi \<Longrightarrow> int64 (spin_value lo hi x)"
  by (auto simp: int64_def spin_value_def min_def max_def)

lemma typed_dialog_kwargs: "typed_fields (dialog_kwargs dlg)"
proof -
  have "int64 1" "int64 2" "int64 10" "int64 30" "int64 60" "int64 (of_bool b)" for b
    by (simp_all add: int64_def)
  then show ?thesis
    by (simp add: dialog_kwargs_def typed_fields_def settings_fields_def settings_columns_def
        int64_spin_value)
qed

lemma assign_dialog_kwargs:
  "st_work_duration (assign_all (dialog_kwargs dlg) r) = spin_value 1 60 (work_spin dlg)
   \<and> st_short_break (assign_all (dialog_kwargs dlg) r) = spin_value 1 30 (short_break_spin dlg)
   \<and> st_long_break (assign_all (dialog_kwargs dlg) r) = spin_value 1 60 (long_break_spin dlg)"
  by (simp add: dialog_kwargs_def assign_all_def)

lemma save_settings_row:
  assumes "get_settings db = Some cur"
  shows "\<exists>db'. save_settings dlg db = Some (Done db')
     \<and> sessions (conn db') = sessions (conn db)
     \<and> get_settings db' = Some (assign_all (dialog_kwargs dlg) cur)"
  using update_settings_fields [OF typed_dialog_kwargs assms, of dlg]
  by (auto simp: save_settings_def)

text \<open>
  Claim C9. A session is started on a window whose database has a settings row, and
  while it counts down the settings dialog is closed with OK. The engine keeps the
  duration it was started with, the old setting in seconds. Whatever the thread has
  done by the time \<^verbatim>\<open>timer_finished\<close> runs, the row it appends carries as duration the
  value the dialog held for the session's type.
\<close>

theorem edited_duration_recorded:
  assumes "get_settings (db_manager app) \<noteq> None" "\<not> is_running_app app"
  shows "\<exists>app2. open_settings dlg (start_timer_app app) = Some (Done app2)
     \<and> timer_thread app2 = start_timer (get_current_duration app * 60) (timer_thread app)
     \<and> (\<forall>th. \<exists>r. session_history (state_of (timer_finished now (app2\<lparr>timer_thread := th\<rparr>)))
                    = session_history app @ [r]
               \<and> ss_session_type r = session_type app
               \<and> ss_completed r = 1
               \<and> ss_duration r = new_duration dlg (session_type app))"
proof -
  let ?app1 = "start_timer_app app"
  from assms(1) obtain cur where cur: "get_settings (db_manager app) = Some cur" by blast
  from assms(2) have app1: "db_manager ?app1 = db_manager app" "session_type ?app1 = session_type app"
    "timer_thread ?app1 = start_timer (get_current_duration app * 60) (timer_thread app)"
    by (simp_all add: start_timer_app_def)
  from save_settings_row [of "db_manager app" cur dlg] cur obtain db' where
    db': "save_settings dlg (db_manager app) = Some (Done db')"
      "sessions (conn db') = sessions (conn (db_manager app))"
      "get_settings db' = Some (assign_all (dialog_kwargs dlg) cur)"
    by blast
  let ?app2 = "load_settings (?app1\<lparr>db_manager := db'\<rparr>)"
  have o: "open_settings dlg ?app1 = Some (Done ?app2)"
    using db' app1 by (simp add: open_settings_def)
  have f: "timer_thread ?app2 = timer_thread ?app1" "session_type ?app2 = session_type app"
    "db_manager ?app2 = db'"
    "work_duration ?app2 = spin_value 1 60 (work_spin dlg)"
    "short_break_duration ?app2 = spin_value 1 30 (short_break_spin dlg)"
    "long_break_duration ?app2 = spin_value 1 60 (long_break_spin dlg)"
    using db'(3) app1 by (simp_all add: load_settings_def assign_dialog_kwargs)
  have d: "get_current_duration (?app2\<lparr>timer_thread := th\<rparr>) = new_duration dlg (session_type app)"
    for th
    using f by (simp add: get_current_duration_def new_duration_def)
  have h: "session_history (?app2\<lparr>timer_thread := th\<rparr>) = session_history app" for th
    using f db'(2) by (simp add: session_history_def)
  have "\<exists>r. session_history (state_of (timer_finished now (?app2\<lparr>timer_thread := th\<rparr>)))
                    = session_history app @ [r]
               \<and> ss_session_type r = session_type app
               \<and> ss_completed r = 1
               \<and> ss_duration r = new_duration dlg (session_type app)" for th
    using timer_finished_history [of now "?app2\<lparr>timer_thread := th\<rparr>"] d [of th] h [of th] f(2)
    by auto
  with o app1(3) f(1) show ?thesis by auto
qed

text \<open>
  C9 on the window of a first start: the work session is started with 25 minutes, the
  dialog sets 50, and the row written at the end says 50.
\<close>

theorem edited_duration_recorded_witness:
  "get_settings (db_manager (new_app new_database)) \<noteq> None
   \<and> \<not> is_running_app (new_app new_database)
   \<and> (\<exists>app2. open_settings edited_dialog (start_timer_app (new_app new_database)) = Some (Done app2)
        \<and> duration (timer_thread app2) = 25 * 60
        \<and> (\<exists>r. session_history (state_of (timer_finished 7 app2)) = [r] \<and> ss_duration r = 50))"
proof -
  have h: "get_settings (db_manager (new_app new_database)) \<noteq> None"
    "\<not> is_running_app (new_app new_database)"
    by (simp_all add: new_app_new_database get_settings_new_database)
  have e: "session_history (new_app new_database) = []"
    "get_current_duration (new_app new_database) = 25"
    "session_type (new_app new_database) = ''work''"
    unfolding new_app_new_database
    by (simp_all add: session_history_def new_database_eq get_current_duration_def)
  from edited_duration_recorded [OF h, of edited_dialog 7] obtain app2 where
    a: "open_settings edited_dialog (start_timer_app (new_app new_database)) = Some (Done app2)"
      "timer_thread app2 = start_timer (get_current_duration (new_app new_database) * 60)
          (timer_thread (new_app new_database))"
      "\<forall>th. \<exists>r. session_history (state_of (timer_finished 7 (app2\<lparr>timer_thread := th\<rparr>)))
                    = session_history (new_app new_database) @ [r]
               \<and> ss_session_type r = session_type (new_app new_database)
               \<and> ss_completed r = 1
               \<and> ss_duration r = new_duration edited_dialog (session_type (new_app new_database))"
    by blast
  from a(3) [rule_format, of "timer_thread app2"] e
  have "\<exists>r. session_history (state_of (timer_finished 7 app2)) = [r] \<and> ss_duration r = 50"
    by (auto simp: new_duration_def edited_dialog_def spin_value_def)
  moreover from a(2) e have "duration (timer_thread app2) = 25 * 60"
    by (simp add: start_timer_def)
  ultimately show ?thesis using h a(1) by blast
qed

section \<open>Daily statistics\<close>





















end
